theory Spec2Isabelle
  imports Main
begin

section \<open>Data model\<close>

text \<open>
  The wallet/marketplace orchestration layer of the web client is a sequence of calls
  into collaborators that live outside the verified sources (wallet provider, contract
  bindings, HTTP client).  The embedding keeps the control flow of every composable as
  written and makes the outside world explicit:
  \<^item> every call that leaves the composables is recorded as an \<open>event\<close> in the
    \<open>trace\<close> field of the state, in the order the code issues it;
  \<^item> the answer to such a call comes from an environment record \<open>env\<close> whose fields
    receive the trace so far, so that the same call may be answered differently at
    different moments (an allowance that changes after an approval, a read that fails
    once);
  \<^item> a rejected promise of a collaborator is the value \<open>Threw\<close>, an exception thrown by
    the composables themselves is the \<open>Inl\<close> branch of the result;
  \<^item> the reactive references (\<open>ref\<close>) of the composables are fields of one state record
    that every operation receives and returns.
  JavaScript truthiness of a string is \<open>s \<noteq> []\<close>; \<open>undefined\<close> is \<open>None\<close>.
\<close>

type_synonym address = string

text \<open>\<open>EthProviderRpcError\<close>: code and message.\<close>

datatype eth_error = EthProviderRpcError int string

datatype 'a outcome = Threw eth_error | Returned 'a

text \<open>Errors thrown by the composables (\<open>throw new Error(...)\<close>), and rejections of a
  collaborator that no \<open>catch\<close> intercepts.\<close>

datatype error =
    ProviderIsNotConnected
  | FailedToGetDefaultRegistryAddress
  | FailedToGetTokenURI
  | FailedToGetMetadata
  | Rejected eth_error

text \<open>\<open>ChainId\<close> of the Provider State: the wrapper starts from the empty string and
  later stores the numeric id of the detected network.\<close>

datatype chainid = ChainUnset | ChainNum nat

fun chain_truthy :: "chainid \<Rightarrow> bool" where
  "chain_truthy ChainUnset = False"
| "chain_truthy (ChainNum n) = (n \<noteq> 0)"

text \<open>\<open>Number(chainId)\<close>: the empty string converts to 0.\<close>

fun Number :: "chainid \<Rightarrow> nat" where
  "Number ChainUnset = 0"
| "Number (ChainNum n) = n"

record network =
  chain_id :: nat
  factory_address :: address

datatype TOKEN_TYPES = native | erc20 | nft | voucher

record PaymentDetails =
  paymentTokenAddress :: address
  paymentTokenPrice :: string
  discount :: string
  nftTokenId :: string

record TokenMintData =
  mint_tokenId :: string
  mint_tokenURI :: string

record BuyParams =
  paymentDetails :: PaymentDetails
  buy_tokenContract :: address
  recipient :: address
  tokenData :: TokenMintData

record Signature =
  sig_r :: string
  sig_s :: string
  sig_v :: nat
  endSigTimestamp :: nat

text \<open>\<open>TxRequestBody\<close> as the marketplace accessor builds it: \<open>value\<close> is attached only
  when given.\<close>

record TxRequestBody =
  tx_to :: address
  tx_data :: string
  tx_value :: "string option"

text \<open>\<open>IMarketplace.UserTokensStructOutput\<close>: token ids are big numbers on the wire.\<close>

record UserTokensStructOutput =
  ut_tokenContract :: address
  ut_tokenIds :: "nat list"

record TokensRaw =
  raw_tokenContract :: address
  raw_tokenIds :: "string list"

record NftMetadata =
  md_name :: string
  md_description :: string
  md_image :: string
  md_external_url :: string

record Payment =
  amount :: string
  book_id :: nat
  contract_address :: address
  payer_address :: address
  token_id :: nat
  payment_type :: TOKEN_TYPES

record TokenBaseInfo =
  tokenContract :: address
  tokenId :: string
  metadata :: NftMetadata

record TokenFullInfo = TokenBaseInfo +
  payment :: "Payment option"

text \<open>Which provider a registry contract instance is connected through.\<close>

datatype via = ViaCurrentProvider | ViaDefaultProvider

text \<open>Calls that leave the composables.\<close>

datatype event =
    EvLoadNetworks
  | EvGetMarketplaceContract via address
  | EvGetDetailedTokenInfo address "address list"
  | EvGetActiveTokenContractsCount address
  | EvGetTokenContractsPart address nat nat
  | EvGetBriefTokenInfoPart address nat nat
  | EvGetUserTokensPart address address nat nat
  | EvSignAndSendTx TxRequestBody
  | EvTokenURI address string
  | EvFetchMetadata string nat
  | EvGetPayments nat string string address
  | EvGetAllowance address address address
  | EvApproveErc20 address address nat
  | EvApproveErc721 address address string
  | EvSendTransaction TxRequestBody
  | EvWaitReceipt string
  | EvProviderGetBalance address
  | EvDetectNetwork
  | EvListAccounts
  | EvHandleEthError eth_error

text \<open>What \<open>useFetch\<close> (an external library) observes of a GET to a metadata endpoint:
  an answer after some milliseconds, with a 2xx status or not, after which \<open>data.value\<close>
  holds a parsed JSON document or \<open>null\<close>; or no answer at all.  Whether the body of
  a non-2xx answer is left in \<open>data.value\<close> is the library's business, so it is part
  of the reply and not decided here.\<close>

datatype fetch_reply = Responds nat bool "NftMetadata option" | NoResponse

text \<open>Opaque contract structs returned by the listing reads.\<close>

datatype token_info = TokenInfo address string

record env =
  DEFAULT_CHAIN_ID :: nat
  DEFAULT_PAGE_LIMIT :: nat
  loadNetworks :: "event list \<Rightarrow> network list outcome"
  getMarketplaceContract :: "event list \<Rightarrow> via \<Rightarrow> address \<Rightarrow> address outcome"
  getDetailedTokenInfo :: "event list \<Rightarrow> address \<Rightarrow> address list \<Rightarrow> token_info list outcome"
  getActiveTokenContractsCount :: "event list \<Rightarrow> address \<Rightarrow> nat outcome"
  getTokenContractsPart :: "event list \<Rightarrow> address \<Rightarrow> nat \<Rightarrow> nat \<Rightarrow> address list outcome"
  getBriefTokenInfoPart :: "event list \<Rightarrow> address \<Rightarrow> nat \<Rightarrow> nat \<Rightarrow> token_info list outcome"
  getUserTokensPart ::
    "event list \<Rightarrow> address \<Rightarrow> address \<Rightarrow> nat \<Rightarrow> nat \<Rightarrow> UserTokensStructOutput list outcome"
  encodeFunctionData :: "string \<Rightarrow> BuyParams \<Rightarrow> Signature \<Rightarrow> string outcome"
  signAndSendTx :: "event list \<Rightarrow> TxRequestBody \<Rightarrow> string option outcome"
  erc721_tokenURI :: "event list \<Rightarrow> address \<Rightarrow> string \<Rightarrow> string option"
  fetch :: "event list \<Rightarrow> string \<Rightarrow> fetch_reply"
  api_getPayments :: "event list \<Rightarrow> nat \<Rightarrow> string \<Rightarrow> string \<Rightarrow> address \<Rightarrow> Payment list outcome"
  erc20_allowance :: "event list \<Rightarrow> address \<Rightarrow> address \<Rightarrow> address \<Rightarrow> nat option"
  signer_sendTransaction :: "event list \<Rightarrow> TxRequestBody \<Rightarrow> string outcome"
  tx_wait :: "event list \<Rightarrow> string \<Rightarrow> unit outcome"
  provider_getBalance :: "event list \<Rightarrow> address \<Rightarrow> nat outcome"
  detectNetwork :: "event list \<Rightarrow> nat outcome"
  listAccounts :: "event list \<Rightarrow> address list outcome"

text \<open>The reactive state: the Provider State (\<open>chainId\<close>, \<open>selectedAddress\<close>, presence of
  the wallet-backed and of the read-only provider), the network store's list, the
  contract-address reference of each accessor, the orchestrator's own
  \<open>marketPlaceAddress\<close>, and the trace.\<close>

record state =
  chainId :: chainid
  selectedAddress :: address
  currentProvider :: bool
  defaultProvider :: bool
  networkList :: "network list"
  registryAddress :: address
  marketContractAddress :: address
  marketPlaceAddress :: address
  erc721Address :: address
  erc20Address :: address
  trace :: "event list"

definition emit :: "event \<Rightarrow> state \<Rightarrow> state" where
  "emit e s = s\<lparr>trace := trace s @ [e]\<rparr>"

text \<open>Modelled from the spec: \<open>handleEthError\<close> (helpers, not among the sources) is the
  centralized handler that "normalizes and reports" a wallet or contract error; "no
  exception crosses into UI state", so it records the error and returns.\<close>

definition handleEthError :: "eth_error \<Rightarrow> state \<Rightarrow> state" where
  "handleEthError e s = emit (EvHandleEthError e) s"

section \<open>Wallet provider wrapper\<close>

definition isConnected :: "state \<Rightarrow> bool" where
  "isConnected s = (selectedAddress s \<noteq> [] \<and> chain_truthy (chainId s))"

text \<open>\<open>_updateProviderState\<close>: the chain id is stored as soon as the network is detected,
  the address after the accounts are listed; a failure of either query goes to the
  handler.  \<open>currentAccounts[0]\<close> of an empty list is \<open>undefined\<close>, a falsy address.\<close>

definition updateProviderState :: "env \<Rightarrow> state \<Rightarrow> state" where
  "updateProviderState E s =
     (let s1 = emit EvDetectNetwork s in
      case detectNetwork E (trace s) of
        Threw e \<Rightarrow> handleEthError e s1
      | Returned n \<Rightarrow>
          (let s2 = s1\<lparr>chainId := ChainNum n\<rparr>;
               s3 = emit EvListAccounts s2 in
           case listAccounts E (trace s2) of
             Threw e \<Rightarrow> handleEthError e s3
           | Returned accounts \<Rightarrow>
               s3\<lparr>selectedAddress := (case accounts of [] \<Rightarrow> [] | a # _ \<Rightarrow> a)\<rparr>))"

text \<open>The three listeners registered by \<open>_setListeners\<close>.\<close>

datatype wallet_event = accountsChanged | chainChanged | disconnect

fun setListeners :: "env \<Rightarrow> wallet_event \<Rightarrow> state \<Rightarrow> state" where
  "setListeners E accountsChanged s = updateProviderState E s"
| "setListeners E chainChanged s = updateProviderState E s"
| "setListeners E disconnect s = s\<lparr>selectedAddress := []\<rparr>"

definition signAndSendTransaction ::
  "env \<Rightarrow> TxRequestBody \<Rightarrow> state \<Rightarrow> string option \<times> state" where
  "signAndSendTransaction E txRequestBody s =
     (let s1 = emit (EvSendTransaction txRequestBody) s in
      case signer_sendTransaction E (trace s) txRequestBody of
        Threw e \<Rightarrow> (None, handleEthError e s1)
      | Returned transactionResponse \<Rightarrow>
          (let s2 = emit (EvWaitReceipt transactionResponse) s1 in
           case tx_wait E (trace s1) transactionResponse of
             Threw e \<Rightarrow> (None, handleEthError e s2)
           | Returned _ \<Rightarrow> (Some transactionResponse, s2)))"

text \<open>\<open>balance.toString()\<close>: the balance stays a number here.\<close>

definition getBalance :: "env \<Rightarrow> address \<Rightarrow> state \<Rightarrow> (error + nat) \<times> state" where
  "getBalance E addr s =
     (let s1 = emit (EvProviderGetBalance addr) s in
      case provider_getBalance E (trace s) addr of
        Threw e \<Rightarrow> (Inl (Rejected e), s1)
      | Returned balance \<Rightarrow> (Inr balance, s1))"

section \<open>Contract registry accessor\<close>

definition initRegistry :: "address \<Rightarrow> state \<Rightarrow> state" where
  "initRegistry addr s = (if addr = [] then s else s\<lparr>registryAddress := addr\<rparr>)"

text \<open>The computed registry instance: through the wallet when the provider is connected,
  otherwise through the read-only default provider, otherwise \<open>undefined\<close>.\<close>

definition registryInstance :: "state \<Rightarrow> (via \<times> address) option" where
  "registryInstance s =
     (if isConnected s \<and> currentProvider s \<and> registryAddress s \<noteq> []
        then Some (ViaCurrentProvider, registryAddress s)
      else if defaultProvider s \<and> registryAddress s \<noteq> []
        then Some (ViaDefaultProvider, registryAddress s)
      else None)"

definition getMarketPlaceAddress :: "env \<Rightarrow> state \<Rightarrow> address option \<times> state" where
  "getMarketPlaceAddress E s =
     (case registryInstance s of
        None \<Rightarrow> (None, s)
      | Some (v, a) \<Rightarrow>
          (let s1 = emit (EvGetMarketplaceContract v a) s in
           case getMarketplaceContract E (trace s) v a of
             Threw e \<Rightarrow> (None, handleEthError e s1)
           | Returned data \<Rightarrow> (Some data, s1)))"

section \<open>Marketplace contract accessor\<close>

definition initMarketPlace :: "address \<Rightarrow> state \<Rightarrow> state" where
  "initMarketPlace addr s = (if addr = [] then s else s\<lparr>marketContractAddress := addr\<rparr>)"

text \<open>The computed marketplace instance exists when the wallet provider exists and the
  contract address is non-empty.\<close>

definition contractInstance :: "state \<Rightarrow> address option" where
  "contractInstance s =
     (if currentProvider s \<and> marketContractAddress s \<noteq> []
        then Some (marketContractAddress s) else None)"

definition getTokenParams ::
  "env \<Rightarrow> address list \<Rightarrow> state \<Rightarrow> token_info list option \<times> state" where
  "getTokenParams E tokenContracts s =
     (case contractInstance s of
        None \<Rightarrow> (None, s)
      | Some c \<Rightarrow>
          (let s1 = emit (EvGetDetailedTokenInfo c tokenContracts) s in
           case getDetailedTokenInfo E (trace s) c tokenContracts of
             Threw e \<Rightarrow> (None, handleEthError e s1)
           | Returned data \<Rightarrow> (Some data, s1)))"

definition getTokenContractsCount :: "env \<Rightarrow> state \<Rightarrow> nat option \<times> state" where
  "getTokenContractsCount E s =
     (case contractInstance s of
        None \<Rightarrow> (None, s)
      | Some c \<Rightarrow>
          (let s1 = emit (EvGetActiveTokenContractsCount c) s in
           case getActiveTokenContractsCount E (trace s) c of
             Threw e \<Rightarrow> (None, handleEthError e s1)
           | Returned data \<Rightarrow> (Some data, s1)))"

definition getBooksContracts ::
  "env \<Rightarrow> nat \<Rightarrow> nat \<Rightarrow> state \<Rightarrow> address list option \<times> state" where
  "getBooksContracts E limit offset s =
     (case contractInstance s of
        None \<Rightarrow> (None, s)
      | Some c \<Rightarrow>
          (let s1 = emit (EvGetTokenContractsPart c offset limit) s in
           case getTokenContractsPart E (trace s) c offset limit of
             Threw e \<Rightarrow> (None, handleEthError e s1)
           | Returned data \<Rightarrow> (Some data, s1)))"

definition getBooksBatch ::
  "env \<Rightarrow> nat \<Rightarrow> nat \<Rightarrow> state \<Rightarrow> token_info list option \<times> state" where
  "getBooksBatch E limit offset s =
     (case contractInstance s of
        None \<Rightarrow> (None, s)
      | Some c \<Rightarrow>
          (let s1 = emit (EvGetBriefTokenInfoPart c offset limit) s in
           case getBriefTokenInfoPart E (trace s) c offset limit of
             Threw e \<Rightarrow> (None, handleEthError e s1)
           | Returned data \<Rightarrow> (Some data, s1)))"

text \<open>The request handed to the provider's \<open>signAndSendTx\<close>; the provider of the store
  catches its own failures, a rejection that still escapes is caught here.\<close>

definition sendEncoded :: "env \<Rightarrow> TxRequestBody \<Rightarrow> state \<Rightarrow> string option \<times> state" where
  "sendEncoded E tx s =
     (let s1 = emit (EvSignAndSendTx tx) s in
      case signAndSendTx E (trace s) tx of
        Threw e \<Rightarrow> (None, handleEthError e s1)
      | Returned receipt \<Rightarrow> (receipt, s1))"

text \<open>\<open>buyTokenWithETH\<close> returns before the \<open>try\<close> when there is no contract instance;
  \<open>value\<close> is attached when truthy.\<close>

definition buyTokenWithETH ::
  "env \<Rightarrow> BuyParams \<Rightarrow> Signature \<Rightarrow> string option \<Rightarrow> state \<Rightarrow> string option \<times> state" where
  "buyTokenWithETH E buyParams signature val s =
     (case contractInstance s of
        None \<Rightarrow> (None, s)
      | Some _ \<Rightarrow>
          (case encodeFunctionData E ''buyTokenWithETH'' buyParams signature of
             Threw e \<Rightarrow> (None, handleEthError e s)
           | Returned data \<Rightarrow>
               sendEncoded E
                 \<lparr>tx_to = marketContractAddress s, tx_data = data,
                  tx_value = (case val of None \<Rightarrow> None
                              | Some v \<Rightarrow> if v \<noteq> [] then Some v else None)\<rparr> s))"

text \<open>\<open>buyTokenWithERC20\<close> and \<open>buyTokenWithNFT\<close> encode and send at once: neither looks
  at the contract instance.\<close>

definition buyTokenWithERC20 ::
  "env \<Rightarrow> BuyParams \<Rightarrow> Signature \<Rightarrow> state \<Rightarrow> string option \<times> state" where
  "buyTokenWithERC20 E buyParams signature s =
     (case encodeFunctionData E ''buyTokenWithERC20'' buyParams signature of
        Threw e \<Rightarrow> (None, handleEthError e s)
      | Returned data \<Rightarrow>
          sendEncoded E
            \<lparr>tx_to = marketContractAddress s, tx_data = data, tx_value = None\<rparr> s)"

definition buyTokenWithNFT ::
  "env \<Rightarrow> BuyParams \<Rightarrow> Signature \<Rightarrow> state \<Rightarrow> string option \<times> state" where
  "buyTokenWithNFT E buyParams signature s =
     (case encodeFunctionData E ''buyTokenWithNFT'' buyParams signature of
        Threw e \<Rightarrow> (None, handleEthError e s)
      | Returned data \<Rightarrow>
          sendEncoded E
            \<lparr>tx_to = marketContractAddress s, tx_data = data, tx_value = None\<rparr> s)"

text \<open>\<open>getUserTokens\<close> also checks the instance before its \<open>try\<close>.\<close>

definition getUserTokens ::
  "env \<Rightarrow> address \<Rightarrow> nat \<Rightarrow> nat \<Rightarrow> state \<Rightarrow> UserTokensStructOutput list option \<times> state" where
  "getUserTokens E userAddress limit offset s =
     (case contractInstance s of
        None \<Rightarrow> (None, s)
      | Some c \<Rightarrow>
          (let s1 = emit (EvGetUserTokensPart c userAddress offset limit) s in
           case getUserTokensPart E (trace s) c userAddress offset limit of
             Threw e \<Rightarrow> (None, handleEthError e s1)
           | Returned data \<Rightarrow> (Some data, s1)))"

section \<open>Token accessors used by the orchestrator\<close>

text \<open>Modelled from the spec: the ERC-20 and ERC-721 accessors (\<open>useErc20\<close>,
  \<open>useErc721\<close>) are not among the sources.  Each is taken as the other accessors are
  written: \<open>init\<close> stores a non-empty address; a read asks the environment and yields
  \<open>undefined\<close> when it fails (the orchestrator tests \<open>!metadataUrl\<close> and
  \<open>allowance?.toString() || 0\<close>); an approval "issues an approval transaction" whose
  result the orchestrator ignores.  The event records the invocation of the accessor.\<close>

definition initErc721 :: "address \<Rightarrow> state \<Rightarrow> state" where
  "initErc721 addr s = (if addr = [] then s else s\<lparr>erc721Address := addr\<rparr>)"

definition initErc20 :: "address \<Rightarrow> state \<Rightarrow> state" where
  "initErc20 addr s = (if addr = [] then s else s\<lparr>erc20Address := addr\<rparr>)"

definition tokenURI :: "env \<Rightarrow> string \<Rightarrow> state \<Rightarrow> string option \<times> state" where
  "tokenURI E tid s =
     (erc721_tokenURI E (trace s) (erc721Address s) tid,
      emit (EvTokenURI (erc721Address s) tid) s)"

definition approveErc721 :: "address \<Rightarrow> string \<Rightarrow> state \<Rightarrow> state" where
  "approveErc721 spender tid s = emit (EvApproveErc721 (erc721Address s) spender tid) s"

definition getAllowance :: "env \<Rightarrow> address \<Rightarrow> address \<Rightarrow> state \<Rightarrow> nat option \<times> state" where
  "getAllowance E owner spender s =
     (erc20_allowance E (trace s) (erc20Address s) owner spender,
      emit (EvGetAllowance (erc20Address s) owner spender) s)"

definition approveErc20 :: "address \<Rightarrow> nat \<Rightarrow> state \<Rightarrow> state" where
  "approveErc20 spender amt s = emit (EvApproveErc20 (erc20Address s) spender amt) s"

text \<open>Modelled from the spec: \<open>BN\<close> (math utility, not among the sources) wraps a big
  number; \<open>compare\<close> is the three-way comparison behind "allowance \<ge> amount" and
  "allowance < amount".  Amounts are natural numbers.\<close>

definition BN_compare :: "nat \<Rightarrow> nat \<Rightarrow> int" where
  "BN_compare a b = (if a > b then 1 else if a = b then 0 else - 1)"

section \<open>Token/approval orchestrator\<close>

definition MAX_METADATA_WAIT_TIME :: nat where
  "MAX_METADATA_WAIT_TIME = 8000"

text \<open>\<open>_initMarketPlace(address?)\<close>: \<open>address || (await getMarketPlaceAddress())\<close>.\<close>

definition orch_initMarketPlace :: "env \<Rightarrow> address option \<Rightarrow> state \<Rightarrow> state" where
  "orch_initMarketPlace E addr s =
     (case (if addr \<noteq> None \<and> addr \<noteq> Some [] then (addr, s) else getMarketPlaceAddress E s) of
        (a, s1) \<Rightarrow>
          (case a of
             None \<Rightarrow> s1
           | Some m \<Rightarrow>
               if m = [] then s1
               else initMarketPlace m (s1\<lparr>marketPlaceAddress := m\<rparr>)))"

text \<open>Modelled from the spec: \<open>loadNetworks\<close> of the network store (not among the
  sources) fills the store's list from the backend; its rejection is not caught by the
  orchestrator.\<close>

definition store_loadNetworks :: "env \<Rightarrow> state \<Rightarrow> (error + unit) \<times> state" where
  "store_loadNetworks E s =
     (let s1 = emit EvLoadNetworks s in
      case loadNetworks E (trace s) of
        Threw e \<Rightarrow> (Inl (Rejected e), s1)
      | Returned l \<Rightarrow> (Inr (), s1\<lparr>networkList := l\<rparr>))"

text \<open>\<open>list.find(network => network.chain_id === chainId)?.factory_address\<close>; a missing
  network and an empty address are both falsy.\<close>

definition factoryAddressOf :: "nat \<Rightarrow> network list \<Rightarrow> address" where
  "factoryAddressOf cid l =
     (case find (\<lambda>n. chain_id n = cid) l of None \<Rightarrow> [] | Some n \<Rightarrow> factory_address n)"

definition orch_initContractRegistry :: "env \<Rightarrow> nat \<Rightarrow> state \<Rightarrow> (error + unit) \<times> state" where
  "orch_initContractRegistry E cid s =
     (case (if networkList s = [] then store_loadNetworks E s else (Inr (), s)) of
        (Inl e, s1) \<Rightarrow> (Inl e, s1)
      | (Inr _, s1) \<Rightarrow>
          (let appropriateRegistryAddress = factoryAddressOf cid (networkList s1) in
           if appropriateRegistryAddress = [] then
             (let defaultRegistryAddress =
                    factoryAddressOf (DEFAULT_CHAIN_ID E) (networkList s1) in
              if defaultRegistryAddress = []
                then (Inl FailedToGetDefaultRegistryAddress, s1)
                else (Inr (), initRegistry defaultRegistryAddress s1))
           else (Inr (), initRegistry appropriateRegistryAddress s1)))"

text \<open>\<open>new BN(allowance?.toString() || 0)\<close>: a missing allowance counts as zero.\<close>

definition BN_of :: "nat option \<Rightarrow> nat" where
  "BN_of allowance = (case allowance of None \<Rightarrow> 0 | Some a \<Rightarrow> a)"

text \<open>\<open>if (tokenAddress) initErc20(tokenAddress)\<close>.\<close>

definition initErc20_if :: "address option \<Rightarrow> state \<Rightarrow> state" where
  "initErc20_if tokenAddress s =
     (case tokenAddress of None \<Rightarrow> s | Some a \<Rightarrow> if a \<noteq> [] then initErc20 a s else s)"

text \<open>\<open>_isErc20TokenApproved\<close> calls itself without a bound, so it is a partial function:
  \<open>None\<close> is the run that never returns.  The recursive call passes no token address.\<close>

partial_function (option) isErc20TokenApproved ::
  "env \<Rightarrow> nat \<Rightarrow> address option \<Rightarrow> state \<Rightarrow> (bool \<times> state) option" where
  "isErc20TokenApproved E tokenAmount tokenAddress s =
     (if selectedAddress s = [] then Some (False, s)
      else
        (case getAllowance E (selectedAddress s) (marketPlaceAddress s)
                (initErc20_if tokenAddress s) of
           (allowance, s2) \<Rightarrow>
             if BN_compare (BN_of allowance) tokenAmount = 1
                \<or> BN_compare (BN_of allowance) tokenAmount = 0
             then Some (True, s2)
             else isErc20TokenApproved E tokenAmount None
                    (if BN_compare (BN_of allowance) tokenAmount = - 1
                     then approveErc20 (marketPlaceAddress s2) tokenAmount s2
                     else s2)))"

declare isErc20TokenApproved.simps [code]

text \<open>\<open>new BN(el._hex).toString()\<close>: the decimal numeral of a token id.\<close>

definition digit_char :: "nat \<Rightarrow> char" where
  "digit_char d = ''0123456789'' ! d"

function string_of_nat :: "nat \<Rightarrow> string" where
  "string_of_nat n =
     (if n < 10 then [digit_char n] else string_of_nat (n div 10) @ [digit_char (n mod 10)])"
  by pat_completeness auto
termination
  by (relation "measure (\<lambda>n. n)") auto

definition formatToken :: "UserTokensStructOutput \<Rightarrow> TokensRaw" where
  "formatToken token =
     \<lparr>raw_tokenContract = ut_tokenContract token,
      raw_tokenIds = map string_of_nat (ut_tokenIds token)\<rparr>"

text \<open>\<open>_getPayment\<close>: the first record of the filtered page, \<open>undefined\<close> when the page is
  empty; a rejection of the HTTP client is not caught.\<close>

definition getPayment ::
  "env \<Rightarrow> address \<Rightarrow> string \<Rightarrow> nat option \<Rightarrow> string option \<Rightarrow> state
     \<Rightarrow> (error + Payment option) \<times> state" where
  "getPayment E tokenAddress tid pageLimit pageOrder s =
     (let limit = (case pageLimit of None \<Rightarrow> DEFAULT_PAGE_LIMIT E
                   | Some l \<Rightarrow> if l = 0 then DEFAULT_PAGE_LIMIT E else l);
          order = (case pageOrder of None \<Rightarrow> ''desc''
                   | Some ord \<Rightarrow> if ord = [] then ''desc'' else ord);
          s1 = emit (EvGetPayments limit order tid tokenAddress) s in
      case api_getPayments E (trace s) limit order tid tokenAddress of
        Threw e \<Rightarrow> (Inl (Rejected e), s1)
      | Returned data \<Rightarrow> (Inr (case data of [] \<Rightarrow> None | p # _ \<Rightarrow> Some p), s1))"

text \<open>\<open>data.value\<close> after \<open>execute()\<close> of a fetch with \<open>timeout: maxTimeout\<close>: a request
  still pending when \<open>maxTimeout\<close> milliseconds have passed is aborted and the data stays
  \<open>null\<close>; otherwise the data is whatever the answer left there.\<close>

definition dataWithin :: "nat \<Rightarrow> fetch_reply \<Rightarrow> NftMetadata option" where
  "dataWithin maxTimeout reply =
     (case reply of
        Responds t ok body \<Rightarrow> if t < maxTimeout then body else None
      | NoResponse \<Rightarrow> None)"

text \<open>\<open>_loadMetadata\<close>: a GET with a timeout that does not throw; it returns
  \<open>data.value\<close> and looks neither at the error nor at the status of the answer.\<close>

definition loadMetadata :: "env \<Rightarrow> string \<Rightarrow> nat \<Rightarrow> state \<Rightarrow> NftMetadata option \<times> state" where
  "loadMetadata E tokenUri maxTimeout s =
     (dataWithin maxTimeout (fetch E (trace s) tokenUri),
      emit (EvFetchMetadata tokenUri maxTimeout) s)"

text \<open>The inner loop of \<open>getNftList\<close> over the token ids of one contract; \<open>continue\<close>
  goes on with the next id and the list built so far.\<close>

fun loadTokenIds ::
  "env \<Rightarrow> address \<Rightarrow> string list \<Rightarrow> TokenBaseInfo list \<times> state \<Rightarrow> TokenBaseInfo list \<times> state" where
  "loadTokenIds E c [] acc = acc"
| "loadTokenIds E c (tid # rest) (proccessedData, s) =
     (case tokenURI E tid s of
        (metadataUrl, s1) \<Rightarrow>
          (case metadataUrl of
             None \<Rightarrow> loadTokenIds E c rest (proccessedData, s1)
           | Some url \<Rightarrow>
               if url = [] then loadTokenIds E c rest (proccessedData, s1)
               else
                 (case loadMetadata E url MAX_METADATA_WAIT_TIME s1 of
                    (None, s2) \<Rightarrow> loadTokenIds E c rest (proccessedData, s2)
                  | (Some md, s2) \<Rightarrow>
                      loadTokenIds E c rest
                        (proccessedData @ [\<lparr>tokenContract = c, tokenId = tid, metadata = md\<rparr>],
                         s2))))"

text \<open>The outer loop over the contracts.\<close>

fun loadContracts ::
  "env \<Rightarrow> TokensRaw list \<Rightarrow> TokenBaseInfo list \<times> state \<Rightarrow> TokenBaseInfo list \<times> state" where
  "loadContracts E [] acc = acc"
| "loadContracts E (el # rest) (proccessedData, s) =
     loadContracts E rest
       (loadTokenIds E (raw_tokenContract el) (raw_tokenIds el)
          (proccessedData, initErc721 (raw_tokenContract el) s))"

definition getNftList ::
  "env \<Rightarrow> address \<Rightarrow> nat \<Rightarrow> nat \<Rightarrow> state \<Rightarrow> (error + TokenBaseInfo list) \<times> state" where
  "getNftList E userAddress limit offset s =
     (if limit = 0 then (Inr [], s)
      else
        (case orch_initContractRegistry E (Number (chainId s)) s of
           (Inl e, s1) \<Rightarrow> (Inl e, s1)
         | (Inr _, s1) \<Rightarrow>
             (case getUserTokens E userAddress limit offset (orch_initMarketPlace E None s1) of
                (None, s3) \<Rightarrow> (Inr [], s3)
              | (Some rawData, s3) \<Rightarrow>
                  (case loadContracts E
                          (map formatToken (filter (\<lambda>el. length (ut_tokenIds el) > 0) rawData))
                          ([], s3) of
                     (proccessedData, s4) \<Rightarrow> (Inr proccessedData, s4)))))"

definition getNft ::
  "env \<Rightarrow> address \<Rightarrow> string \<Rightarrow> state \<Rightarrow> (error + TokenFullInfo) \<times> state" where
  "getNft E collectionAddress tid s =
     (if \<not> isConnected s then (Inl ProviderIsNotConnected, s)
      else
        (case orch_initContractRegistry E (Number (chainId s)) s of
           (Inl e, s1) \<Rightarrow> (Inl e, s1)
         | (Inr _, s1) \<Rightarrow>
             (case tokenURI E tid (initErc721 collectionAddress (orch_initMarketPlace E None s1)) of
                (metadataUrl, s4) \<Rightarrow>
                  (case metadataUrl of
                     None \<Rightarrow> (Inl FailedToGetTokenURI, s4)
                   | Some url \<Rightarrow>
                       if url = [] then (Inl FailedToGetTokenURI, s4)
                       else
                         (case loadMetadata E url MAX_METADATA_WAIT_TIME s4 of
                            (None, s5) \<Rightarrow> (Inl FailedToGetMetadata, s5)
                          | (Some md, s5) \<Rightarrow>
                              (case getPayment E collectionAddress tid None None s5 of
                                 (Inl e, s6) \<Rightarrow> (Inl e, s6)
                               | (Inr paymentInfo, s6) \<Rightarrow>
                                   (Inr \<lparr>tokenContract = collectionAddress, tokenId = tid,
                                         metadata = md, payment = paymentInfo\<rparr>, s6)))))))"

definition mintWithEth ::
  "env \<Rightarrow> BuyParams \<Rightarrow> Signature \<Rightarrow> string \<Rightarrow> state \<Rightarrow> state" where
  "mintWithEth E buyParams signature amountOfEth s =
     (if \<not> chain_truthy (chainId s) then s
      else snd (buyTokenWithETH E buyParams signature (Some amountOfEth) s))"

definition mintWithErc20 :: "env \<Rightarrow> BuyParams \<Rightarrow> Signature \<Rightarrow> state \<Rightarrow> state" where
  "mintWithErc20 E buyParams signature s =
     (if \<not> chain_truthy (chainId s) then s
      else snd (buyTokenWithERC20 E buyParams signature s))"

definition mintWithNft :: "env \<Rightarrow> BuyParams \<Rightarrow> Signature \<Rightarrow> state \<Rightarrow> state" where
  "mintWithNft E buyParams signature s =
     (if \<not> chain_truthy (chainId s) then s
      else snd (buyTokenWithNFT E buyParams signature s))"

text \<open>\<open>approveTokenSpend\<close>: \<open>None\<close> is a run that never returns (through
  \<open>_isErc20TokenApproved\<close>); a missing or empty optional argument is falsy, except the
  amount, a numeral that is only missing when \<open>None\<close>.\<close>

definition approveTokenSpend ::
  "env \<Rightarrow> TOKEN_TYPES \<Rightarrow> nat option \<Rightarrow> address option \<Rightarrow> string option \<Rightarrow> state \<Rightarrow> state option" where
  "approveTokenSpend E tokenType tokenAmount tokenAddress tid s =
     (if selectedAddress s = [] \<or> marketPlaceAddress s = [] then Some s
      else
        (case tokenType of
           erc20 \<Rightarrow>
             (case (tokenAddress, tokenAmount) of
                (Some a, Some n) \<Rightarrow>
                  if a = [] then Some s
                  else map_option snd (isErc20TokenApproved E n (Some a) s)
              | _ \<Rightarrow> Some s)
         | voucher \<Rightarrow>
             (case (tokenAddress, tokenAmount) of
                (Some a, Some n) \<Rightarrow>
                  if a = [] then Some s
                  else map_option snd (isErc20TokenApproved E n (Some a) s)
              | _ \<Rightarrow> Some s)
         | nft \<Rightarrow>
             (case (tokenAddress, tid) of
                (Some a, Some t) \<Rightarrow>
                  if a = [] \<or> t = [] then Some s
                  else Some (approveErc721 (marketPlaceAddress s) t (initErc721 a s))
              | _ \<Rightarrow> Some s)
         | native \<Rightarrow> Some s))"

text \<open>The watcher on the provider's chain id (run once at creation and on every change):
  \<open>_initContractRegistry\<close>, then \<open>_initMarketPlace\<close>.\<close>

definition onChainIdChange :: "env \<Rightarrow> state \<Rightarrow> (error + unit) \<times> state" where
  "onChainIdChange E s =
     (case orch_initContractRegistry E (Number (chainId s)) s of
        (Inl e, s1) \<Rightarrow> (Inl e, s1)
      | (Inr _, s1) \<Rightarrow> (Inr (), orch_initMarketPlace E None s1))"

section \<open>Observations on traces and concrete scenarios\<close>


text \<open>Calls that \<open>getNftList\<close> makes before it looks at any token: loading the network
  list, asking the registry for the marketplace, reading the user's tokens, and the
  report of a failed read to the error handler.\<close>

fun isListingPreludeEvent :: "event \<Rightarrow> bool" where
  "isListingPreludeEvent EvLoadNetworks = True"
| "isListingPreludeEvent (EvGetMarketplaceContract _ _) = True"
| "isListingPreludeEvent (EvGetUserTokensPart _ _ _ _) = True"
| "isListingPreludeEvent (EvHandleEthError _) = True"
| "isListingPreludeEvent _ = False"

text \<open>The events of \<open>k\<close> rounds of the allowance loop: a read of the allowance, then an
  approval of the amount.\<close>

definition approvalRounds :: "address \<Rightarrow> address \<Rightarrow> address \<Rightarrow> nat \<Rightarrow> nat \<Rightarrow> event list" where
  "approvalRounds t ow sp amt k =
     concat (replicate k [EvGetAllowance t ow sp, EvApproveErc20 t sp amt])"




text \<open>The state right after the composables are created: empty chain id and address,
  no contract address bound, an empty network store; both providers are present.\<close>

definition initialState :: state where
  "initialState =
     \<lparr>chainId = ChainUnset, selectedAddress = [], currentProvider = True,
      defaultProvider = True, networkList = [], registryAddress = [],
      marketContractAddress = [], marketPlaceAddress = [], erc721Address = [],
      erc20Address = [], trace = []\<rparr>"

text \<open>A wallet connected on chain 1.\<close>

definition connectedState :: state where
  "connectedState = initialState\<lparr>chainId := ChainNum 1, selectedAddress := ''0xUSER''\<rparr>"



text \<open>A connected wallet whose orchestrator already knows the marketplace.\<close>

definition boundState :: state where
  "boundState =
     connectedState\<lparr>marketPlaceAddress := ''0xMARKET'', marketContractAddress := ''0xMARKET''\<rparr>"

text \<open>An environment in which every collaborator answers and nothing is owned: one
  network with a registry, a marketplace behind it, no tokens, no allowance.\<close>

definition quietEnv :: env where
  "quietEnv =
     \<lparr>DEFAULT_CHAIN_ID = 1, DEFAULT_PAGE_LIMIT = 10,
      loadNetworks = (\<lambda>h. Returned [\<lparr>chain_id = 1, factory_address = ''0xREGISTRY''\<rparr>]),
      getMarketplaceContract = (\<lambda>h v a. Returned ''0xMARKET''),
      getDetailedTokenInfo = (\<lambda>h c l. Returned []),
      getActiveTokenContractsCount = (\<lambda>h c. Returned 0),
      getTokenContractsPart = (\<lambda>h c off lim. Returned []),
      getBriefTokenInfoPart = (\<lambda>h c off lim. Returned []),
      getUserTokensPart = (\<lambda>h c u off lim. Returned []),
      encodeFunctionData = (\<lambda>fn bp sg. Returned fn),
      signAndSendTx = (\<lambda>h tx. Returned (Some ''0xRECEIPT'')),
      erc721_tokenURI = (\<lambda>h c t. None),
      fetch = (\<lambda>h u. NoResponse),
      api_getPayments = (\<lambda>h lim ord t c. Returned []),
      erc20_allowance = (\<lambda>h t ow sp. None),
      signer_sendTransaction = (\<lambda>h tx. Returned ''0xTX''),
      tx_wait = (\<lambda>h t. Returned ()),
      provider_getBalance = (\<lambda>h a. Returned 0),
      detectNetwork = (\<lambda>h. Returned 1),
      listAccounts = (\<lambda>h. Returned [])\<rparr>"


text \<open>The allowance is 0 until three approvals have been requested, 10 afterwards.\<close>

definition slowApprovingEnv :: env where
  "slowApprovingEnv =
     quietEnv\<lparr>erc20_allowance :=
       (\<lambda>h t ow sp. if 3 \<le> length (filter (\<lambda>e. e = EvApproveErc20 t sp 5) h)
                     then Some 10 else Some 0)\<rparr>"

text \<open>Only the token at \<open>0xTOKEN\<close> is stuck at allowance 0; every other token answers
  100.\<close>

definition oneTokenStuckEnv :: env where
  "oneTokenStuckEnv =
     quietEnv\<lparr>erc20_allowance := (\<lambda>h t ow sp. if t = ''0xTOKEN'' then Some 0 else Some 100)\<rparr>"

text \<open>Approvals that never take effect: every allowance read answers 0.\<close>

definition stuckEnv :: env where
  "stuckEnv = quietEnv\<lparr>erc20_allowance := (\<lambda>h t ow sp. Some 0)\<rparr>"

definition bookMetadata :: NftMetadata where
  "bookMetadata =
     \<lparr>md_name = ''Book'', md_description = ''A book'', md_image = ''ipfs://image'',
      md_external_url = ''https://example.org''\<rparr>"

text \<open>The owner has one contract with the token ids 1 and 2; the metadata document of
  token 1 arrives after 120 ms, that of token 2 after 9000 ms.\<close>

definition twoTokensEnv :: env where
  "twoTokensEnv =
     quietEnv\<lparr>getUserTokensPart :=
                (\<lambda>h c u off lim. Returned [\<lparr>ut_tokenContract = ''0xBOOK'', ut_tokenIds = [1, 2]\<rparr>]),
              erc721_tokenURI := (\<lambda>h c t. Some (''meta/'' @ t)),
              fetch := (\<lambda>h u. if u = ''meta/1'' then Responds 120 True (Some bookMetadata)
                               else Responds 9000 True (Some bookMetadata))\<rparr>"


text \<open>A wallet provider that rejects both the balance query and the submission of a
  transaction.\<close>

definition failingProviderEnv :: env where
  "failingProviderEnv =
     quietEnv\<lparr>provider_getBalance := (\<lambda>h a. Threw (EthProviderRpcError 4900 ''disconnected'')),
              signer_sendTransaction := (\<lambda>h tx. Threw (EthProviderRpcError 4900 ''disconnected''))\<rparr>"

text \<open>A registry whose read fails, and the connected wallet after the chain-id watcher
  has run against it: the marketplace accessor was never given an address.\<close>

definition registryDownEnv :: env where
  "registryDownEnv =
     quietEnv\<lparr>getMarketplaceContract := (\<lambda>h v a. Threw (EthProviderRpcError 4900 ''disconnected''))\<rparr>"

definition unboundState :: state where
  "unboundState = snd (onChainIdChange registryDownEnv connectedState)"


definition someBuyParams :: BuyParams where
  "someBuyParams =
     \<lparr>paymentDetails =
        \<lparr>paymentTokenAddress = ''0xTOKEN'', paymentTokenPrice = ''100'', discount = ''0'',
         nftTokenId = ''0''\<rparr>,
      buy_tokenContract = ''0xBOOK'', recipient = ''0xUSER'',
      tokenData = \<lparr>mint_tokenId = ''7'', mint_tokenURI = ''meta/7''\<rparr>\<rparr>"

definition someSignature :: Signature where
  "someSignature = \<lparr>sig_r = ''0x01'', sig_s = ''0x02'', sig_v = 27, endSigTimestamp = 1700000000\<rparr>"


section \<open>The allowance loop\<close>

lemma initErc20_if_fields [simp]:
  "selectedAddress (initErc20_if tok s) = selectedAddress s"
  "marketPlaceAddress (initErc20_if tok s) = marketPlaceAddress s"
  "trace (initErc20_if tok s) = trace s"
  by (auto simp: initErc20_if_def initErc20_def split: option.splits)

lemma initErc20_if_None [simp]: "initErc20_if None s = s"
  by (simp add: initErc20_if_def)

lemma BN_compare_cases:
  "(BN_compare a b = 1 \<or> BN_compare a b = 0) = (b \<le> a)"
  "(BN_compare a b = - 1) = (a < b)"
  by (auto simp: BN_compare_def)

lemma approved_at_once:
  assumes "selectedAddress s \<noteq> []"
    and "amt \<le> BN_of (erc20_allowance E (trace s) (erc20Address (initErc20_if tok s))
                        (selectedAddress s) (marketPlaceAddress s))"
  shows "isErc20TokenApproved E amt tok s =
     Some (True, emit (EvGetAllowance (erc20Address (initErc20_if tok s)) (selectedAddress s)
                         (marketPlaceAddress s)) (initErc20_if tok s))"
  using assms
  by (subst isErc20TokenApproved.simps) (simp add: getAllowance_def BN_compare_cases)

lemma approve_then_recheck:
  assumes "selectedAddress s \<noteq> []"
    and "BN_of (erc20_allowance E (trace s) (erc20Address (initErc20_if tok s))
                 (selectedAddress s) (marketPlaceAddress s)) < amt"
  shows "isErc20TokenApproved E amt tok s =
     isErc20TokenApproved E amt None
       (emit (EvApproveErc20 (erc20Address (initErc20_if tok s)) (marketPlaceAddress s) amt)
          (emit (EvGetAllowance (erc20Address (initErc20_if tok s)) (selectedAddress s)
                   (marketPlaceAddress s)) (initErc20_if tok s)))"
  using assms
  by (subst isErc20TokenApproved.simps)
     (simp add: getAllowance_def BN_compare_cases approveErc20_def emit_def)

lemma no_address_no_approval:
  "selectedAddress s = [] \<Longrightarrow> isErc20TokenApproved E amt tok s = Some (False, s)"
  by (subst isErc20TokenApproved.simps) simp

lemma approvalRounds_simps [simp]:
  "approvalRounds t ow sp amt 0 = []"
  "approvalRounds t ow sp amt (Suc k) =
     EvGetAllowance t ow sp # EvApproveErc20 t sp amt # approvalRounds t ow sp amt k"
  by (simp_all add: approvalRounds_def)

lemma returns_after_rounds:
  "selectedAddress s \<noteq> [] \<Longrightarrow>
   (\<forall>j<k. BN_of (erc20_allowance E
              (trace s @ approvalRounds (erc20Address (initErc20_if tok s)) (selectedAddress s)
                          (marketPlaceAddress s) amt j)
              (erc20Address (initErc20_if tok s)) (selectedAddress s) (marketPlaceAddress s)) < amt) \<Longrightarrow>
   amt \<le> BN_of (erc20_allowance E
              (trace s @ approvalRounds (erc20Address (initErc20_if tok s)) (selectedAddress s)
                          (marketPlaceAddress s) amt k)
              (erc20Address (initErc20_if tok s)) (selectedAddress s) (marketPlaceAddress s)) \<Longrightarrow>
   isErc20TokenApproved E amt tok s =
     Some (True, (initErc20_if tok s)
       \<lparr>trace := trace s @ approvalRounds (erc20Address (initErc20_if tok s)) (selectedAddress s)
                              (marketPlaceAddress s) amt k
                 @ [EvGetAllowance (erc20Address (initErc20_if tok s)) (selectedAddress s)
                      (marketPlaceAddress s)]\<rparr>)"
proof (induction k arbitrary: s tok)
  case 0
  then show ?case
    using approved_at_once[of s amt E tok] by (simp add: emit_def)
next
  case (Suc k)
  let ?s1 = "initErc20_if tok s"
  let ?t = "erc20Address ?s1"
  let ?rd = "EvGetAllowance ?t (selectedAddress s) (marketPlaceAddress s)"
  let ?ap = "EvApproveErc20 ?t (marketPlaceAddress s) amt"
  let ?s2 = "emit ?ap (emit ?rd ?s1)"
  from Suc.prems(2) have low0: "BN_of (erc20_allowance E (trace s) ?t (selectedAddress s)
                                   (marketPlaceAddress s)) < amt"
    by (drule_tac x = 0 in spec) simp
  from approve_then_recheck[OF Suc.prems(1) low0]
  have step: "isErc20TokenApproved E amt tok s = isErc20TokenApproved E amt None ?s2" .
  have f2: "selectedAddress ?s2 = selectedAddress s" "marketPlaceAddress ?s2 = marketPlaceAddress s"
    "erc20Address ?s2 = ?t" "trace ?s2 = trace s @ [?rd, ?ap]"
    by (simp_all add: emit_def)
  have sel2: "selectedAddress ?s2 \<noteq> []" using Suc.prems(1) f2 by simp
  have low2: "\<forall>j<k. BN_of (erc20_allowance E
              (trace ?s2 @ approvalRounds (erc20Address (initErc20_if None ?s2)) (selectedAddress ?s2)
                          (marketPlaceAddress ?s2) amt j)
              (erc20Address (initErc20_if None ?s2)) (selectedAddress ?s2) (marketPlaceAddress ?s2)) < amt"
  proof (intro allI impI)
    fix j assume "j < k"
    then have "Suc j < Suc k" by simp
    with Suc.prems(2) show "BN_of (erc20_allowance E
              (trace ?s2 @ approvalRounds (erc20Address (initErc20_if None ?s2)) (selectedAddress ?s2)
                          (marketPlaceAddress ?s2) amt j)
              (erc20Address (initErc20_if None ?s2)) (selectedAddress ?s2) (marketPlaceAddress ?s2)) < amt"
      by (drule_tac x = "Suc j" in spec) (simp add: f2)
  qed
  have high2: "amt \<le> BN_of (erc20_allowance E
              (trace ?s2 @ approvalRounds (erc20Address (initErc20_if None ?s2)) (selectedAddress ?s2)
                          (marketPlaceAddress ?s2) amt k)
              (erc20Address (initErc20_if None ?s2)) (selectedAddress ?s2) (marketPlaceAddress ?s2))"
    using Suc.prems(3) by (simp add: f2)
  from Suc.IH[OF sel2 low2 high2] step show ?case
    by (simp add: f2) (simp add: emit_def)
qed

lemma run_characterisation:
  assumes "isErc20TokenApproved E amt tok s = Some y"
  shows "selectedAddress s \<noteq> [] \<Longrightarrow>
     (\<exists>k. y = (True, (initErc20_if tok s)
              \<lparr>trace := trace s @ approvalRounds (erc20Address (initErc20_if tok s))
                                     (selectedAddress s) (marketPlaceAddress s) amt k
                        @ [EvGetAllowance (erc20Address (initErc20_if tok s)) (selectedAddress s)
                             (marketPlaceAddress s)]\<rparr>)
        \<and> amt \<le> BN_of (erc20_allowance E
              (trace s @ approvalRounds (erc20Address (initErc20_if tok s)) (selectedAddress s)
                          (marketPlaceAddress s) amt k)
              (erc20Address (initErc20_if tok s)) (selectedAddress s) (marketPlaceAddress s))
        \<and> (\<forall>j<k. BN_of (erc20_allowance E
              (trace s @ approvalRounds (erc20Address (initErc20_if tok s)) (selectedAddress s)
                          (marketPlaceAddress s) amt j)
              (erc20Address (initErc20_if tok s)) (selectedAddress s) (marketPlaceAddress s)) < amt))"
  using assms
proof (induct rule: isErc20TokenApproved.raw_induct[rotated 1, consumes 1, case_names step])
  case (step f E amt tok s y)
  let ?s1 = "initErc20_if tok s"
  let ?t = "erc20Address ?s1"
  let ?ow = "selectedAddress s"
  let ?sp = "marketPlaceAddress s"
  let ?rd = "EvGetAllowance ?t ?ow ?sp"
  let ?ap = "EvApproveErc20 ?t ?sp amt"
  let ?read = "\<lambda>j. BN_of (erc20_allowance E (trace s @ approvalRounds ?t ?ow ?sp amt j) ?t ?ow ?sp)"
  note sel = \<open>selectedAddress s \<noteq> []\<close>
  show ?case
  proof (cases "amt \<le> ?read 0")
    case True
    with sel step(2) have "y = (True, emit ?rd ?s1)"
      by (auto simp: getAllowance_def BN_compare_cases)
    then have "y = (True, ?s1\<lparr>trace := trace s @ approvalRounds ?t ?ow ?sp amt 0 @ [?rd]\<rparr>)"
      by (simp add: emit_def)
    with True show ?thesis by blast
  next
    case lt: False
    let ?s2 = "emit ?ap (emit ?rd ?s1)"
    have f2: "selectedAddress ?s2 = ?ow" "marketPlaceAddress ?s2 = ?sp"
      "erc20Address ?s2 = ?t" "trace ?s2 = trace s @ [?rd, ?ap]"
      by (simp_all add: emit_def)
    from lt sel step(2) have "f E amt None ?s2 = Some y"
      by (auto simp: getAllowance_def BN_compare_cases approveErc20_def emit_def)
    from step(1)[OF this] sel obtain k where
      y: "y = (True, ?s2\<lparr>trace := trace ?s2 @ approvalRounds ?t ?ow ?sp amt k @ [?rd]\<rparr>)"
      and hi: "amt \<le> BN_of (erc20_allowance E (trace ?s2 @ approvalRounds ?t ?ow ?sp amt k) ?t ?ow ?sp)"
      and lo: "\<forall>j<k. BN_of (erc20_allowance E (trace ?s2 @ approvalRounds ?t ?ow ?sp amt j) ?t ?ow ?sp) < amt"
      by (auto simp: f2)
    from y have y': "y = (True, ?s1\<lparr>trace := trace s @ approvalRounds ?t ?ow ?sp amt (Suc k) @ [?rd]\<rparr>)"
      by (simp add: emit_def)
    from hi have hi': "amt \<le> ?read (Suc k)" by (simp add: f2)
    have lo': "\<forall>j<Suc k. ?read j < amt"
    proof (intro allI impI)
      fix j assume "j < Suc k"
      show "?read j < amt"
      proof (cases j)
        case 0
        with lt show ?thesis by simp
      next
        case (Suc j')
        with \<open>j < Suc k\<close> lo show ?thesis by (simp add: f2)
      qed
    qed
    from y' hi' lo' show ?thesis by blast
  qed
qed





text \<open>
  Claim C2.  After an approval \<open>_isErc20TokenApproved\<close> calls itself again on the same
  amount, and nothing counts or bounds the attempts.  Write \<open>t\<close>, \<open>ow\<close>, \<open>sp\<close> for the
  token, owner and spender of the reads, and call the \<open>j\<close>-th read the allowance read
  after \<open>j\<close> rounds (read, approval of the amount).  A call returns only in two ways:
  with \<open>false\<close> and an untouched state when no address is selected, or with \<open>true\<close>
  right after the first read that is at least the amount, all earlier reads having been
  below it and each of them followed by one approval.  For every number \<open>k\<close>, if the
  first \<open>k\<close> reads are below the amount and the next one is not, the call does return
  \<open>true\<close> after exactly \<open>k\<close> approvals: no number of failed attempts stops the retry.
  So the function is not total: with an address selected and every one of these reads
  below the amount, the call never returns.
\<close>

theorem isErc20TokenApproved_unbounded_retry:
  assumes "t = erc20Address (initErc20_if tok s)"
    and "ow = selectedAddress s"
    and "sp = marketPlaceAddress s"
  shows
    "(\<forall>r s'. isErc20TokenApproved E amt tok s = Some (r, s') \<longrightarrow>
        (selectedAddress s = [] \<and> \<not> r \<and> s' = s) \<or>
        (selectedAddress s \<noteq> [] \<and> r \<and>
          (\<exists>k. s' = (initErc20_if tok s)
                   \<lparr>trace := trace s @ approvalRounds t ow sp amt k @ [EvGetAllowance t ow sp]\<rparr>
             \<and> amt \<le> BN_of (erc20_allowance E (trace s @ approvalRounds t ow sp amt k) t ow sp)
             \<and> (\<forall>j<k. BN_of (erc20_allowance E (trace s @ approvalRounds t ow sp amt j) t ow sp)
                         < amt))))
   \<and> (\<forall>k. selectedAddress s \<noteq> []
          \<and> (\<forall>j<k. BN_of (erc20_allowance E (trace s @ approvalRounds t ow sp amt j) t ow sp) < amt)
          \<and> amt \<le> BN_of (erc20_allowance E (trace s @ approvalRounds t ow sp amt k) t ow sp) \<longrightarrow>
          isErc20TokenApproved E amt tok s =
            Some (True, (initErc20_if tok s)
                   \<lparr>trace := trace s @ approvalRounds t ow sp amt k @ [EvGetAllowance t ow sp]\<rparr>))
   \<and> (selectedAddress s \<noteq> []
        \<and> (\<forall>j. BN_of (erc20_allowance E (trace s @ approvalRounds t ow sp amt j) t ow sp) < amt) \<longrightarrow>
        isErc20TokenApproved E amt tok s = None)"
proof (intro conjI allI impI)
  fix r s'
  assume run: "isErc20TokenApproved E amt tok s = Some (r, s')"
  show "(selectedAddress s = [] \<and> \<not> r \<and> s' = s) \<or>
        (selectedAddress s \<noteq> [] \<and> r \<and>
          (\<exists>k. s' = (initErc20_if tok s)
                   \<lparr>trace := trace s @ approvalRounds t ow sp amt k @ [EvGetAllowance t ow sp]\<rparr>
             \<and> amt \<le> BN_of (erc20_allowance E (trace s @ approvalRounds t ow sp amt k) t ow sp)
             \<and> (\<forall>j<k. BN_of (erc20_allowance E (trace s @ approvalRounds t ow sp amt j) t ow sp)
                         < amt)))"
  proof (cases "selectedAddress s = []")
    case True
    with run no_address_no_approval[of s E amt tok] show ?thesis by simp
  next
    case False
    from run_characterisation[OF run False] False show ?thesis
      unfolding assms by auto
  qed
next
  fix k
  assume "selectedAddress s \<noteq> []
          \<and> (\<forall>j<k. BN_of (erc20_allowance E (trace s @ approvalRounds t ow sp amt j) t ow sp) < amt)
          \<and> amt \<le> BN_of (erc20_allowance E (trace s @ approvalRounds t ow sp amt k) t ow sp)"
  then show "isErc20TokenApproved E amt tok s =
            Some (True, (initErc20_if tok s)
                   \<lparr>trace := trace s @ approvalRounds t ow sp amt k @ [EvGetAllowance t ow sp]\<rparr>)"
    unfolding assms using returns_after_rounds[of s k E tok amt] by blast
next
  assume a: "selectedAddress s \<noteq> []
        \<and> (\<forall>j. BN_of (erc20_allowance E (trace s @ approvalRounds t ow sp amt j) t ow sp) < amt)"
  show "isErc20TokenApproved E amt tok s = None"
  proof (rule ccontr)
    assume "isErc20TokenApproved E amt tok s \<noteq> None"
    then obtain y where y: "isErc20TokenApproved E amt tok s = Some y" by auto
    from a have sel: "selectedAddress s \<noteq> []" by simp
    from run_characterisation[OF y sel] a show False
      unfolding assms by (auto simp: not_le[symmetric])
  qed
qed

theorem isErc20TokenApproved_unbounded_retry_witness:
  "erc20Address (initErc20_if (Some ''0xTOKEN'') boundState) = ''0xTOKEN''
   \<and> selectedAddress boundState = ''0xUSER''
   \<and> marketPlaceAddress boundState = ''0xMARKET''
   \<and> isErc20TokenApproved slowApprovingEnv 5 (Some ''0xTOKEN'') boundState =
       Some (True, (initErc20_if (Some ''0xTOKEN'') boundState)
              \<lparr>trace := [EvGetAllowance ''0xTOKEN'' ''0xUSER'' ''0xMARKET'',
                         EvApproveErc20 ''0xTOKEN'' ''0xMARKET'' 5,
                         EvGetAllowance ''0xTOKEN'' ''0xUSER'' ''0xMARKET'',
                         EvApproveErc20 ''0xTOKEN'' ''0xMARKET'' 5,
                         EvGetAllowance ''0xTOKEN'' ''0xUSER'' ''0xMARKET'',
                         EvApproveErc20 ''0xTOKEN'' ''0xMARKET'' 5,
                         EvGetAllowance ''0xTOKEN'' ''0xUSER'' ''0xMARKET'']\<rparr>)
   \<and> erc20_allowance oneTokenStuckEnv [] ''0xOTHER'' ''0xUSER'' ''0xMARKET'' = Some 100
   \<and> isErc20TokenApproved oneTokenStuckEnv 5 (Some ''0xTOKEN'') boundState = None"
proof -
  have t: "''0xTOKEN'' = erc20Address (initErc20_if (Some ''0xTOKEN'') boundState)"
    by (simp add: initErc20_if_def initErc20_def)
  have ow: "''0xUSER'' = selectedAddress boundState"
    and sp: "''0xMARKET'' = marketPlaceAddress boundState"
    and tr: "trace boundState = []"
    by (simp_all add: boundState_def connectedState_def initialState_def)
  have sel: "selectedAddress boundState \<noteq> []"
    using ow by (metis list.distinct(1))
  note slow = isErc20TokenApproved_unbounded_retry
                [OF t ow sp, of slowApprovingEnv 5, THEN conjunct2, THEN conjunct1, rule_format, of 3]
  note stuck = isErc20TokenApproved_unbounded_retry
                [OF t ow sp, of oneTokenStuckEnv 5, THEN conjunct2, THEN conjunct2, rule_format]
  have low: "\<forall>j<3. BN_of (erc20_allowance slowApprovingEnv
                (trace boundState @ approvalRounds ''0xTOKEN'' ''0xUSER'' ''0xMARKET'' 5 j)
                ''0xTOKEN'' ''0xUSER'' ''0xMARKET'') < 5"
    by (auto simp: tr slowApprovingEnv_def BN_of_def less_Suc_eq numeral_3_eq_3)
  have high: "5 \<le> BN_of (erc20_allowance slowApprovingEnv
                (trace boundState @ approvalRounds ''0xTOKEN'' ''0xUSER'' ''0xMARKET'' 5 3)
                ''0xTOKEN'' ''0xUSER'' ''0xMARKET'')"
    by (simp add: tr slowApprovingEnv_def BN_of_def numeral_3_eq_3)
  have never: "\<forall>j. BN_of (erc20_allowance oneTokenStuckEnv
                (trace boundState @ approvalRounds ''0xTOKEN'' ''0xUSER'' ''0xMARKET'' 5 j)
                ''0xTOKEN'' ''0xUSER'' ''0xMARKET'') < 5"
    by (simp add: oneTokenStuckEnv_def BN_of_def)
  have other: "erc20_allowance oneTokenStuckEnv [] ''0xOTHER'' ''0xUSER'' ''0xMARKET'' = Some 100"
    by (simp add: oneTokenStuckEnv_def)
  from slow[OF conjI[OF sel conjI[OF low high]]]
  have 1: "isErc20TokenApproved slowApprovingEnv 5 (Some ''0xTOKEN'') boundState =
       Some (True, (initErc20_if (Some ''0xTOKEN'') boundState)
              \<lparr>trace := [EvGetAllowance ''0xTOKEN'' ''0xUSER'' ''0xMARKET'',
                         EvApproveErc20 ''0xTOKEN'' ''0xMARKET'' 5,
                         EvGetAllowance ''0xTOKEN'' ''0xUSER'' ''0xMARKET'',
                         EvApproveErc20 ''0xTOKEN'' ''0xMARKET'' 5,
                         EvGetAllowance ''0xTOKEN'' ''0xUSER'' ''0xMARKET'',
                         EvApproveErc20 ''0xTOKEN'' ''0xMARKET'' 5,
                         EvGetAllowance ''0xTOKEN'' ''0xUSER'' ''0xMARKET'']\<rparr>)"
    by (simp add: tr numeral_3_eq_3)
  from stuck[OF conjI[OF sel never]]
  have 2: "isErc20TokenApproved oneTokenStuckEnv 5 (Some ''0xTOKEN'') boundState = None" .
  from t ow sp 1 2 other show ?thesis by simp
qed

text \<open>
  Claim C10.  While no wallet address is selected, \<open>_isErc20TokenApproved\<close> returns
  \<open>false\<close> at once and \<open>approveTokenSpend\<close> returns at its first guard, for every token
  type: the state, and with it the trace, is unchanged, so no allowance is read and no
  approval is requested.
\<close>

theorem no_selected_address_no_approval:
  assumes "selectedAddress s = []"
  shows "isErc20TokenApproved E amt tok s = Some (False, s)
     \<and> approveTokenSpend E tokenType tokenAmount tok tid s = Some s"
  using assms
  by (simp add: approveTokenSpend_def no_address_no_approval)

theorem no_selected_address_no_approval_witness:
  "selectedAddress initialState = []
   \<and> isErc20TokenApproved stuckEnv 5 (Some ''0xTOKEN'') initialState = Some (False, initialState)
   \<and> approveTokenSpend stuckEnv erc20 (Some 5) (Some ''0xTOKEN'') None initialState
       = Some initialState"
proof -
  have sel: "selectedAddress initialState = []"
    by (simp add: initialState_def)
  from no_selected_address_no_approval[OF sel, of stuckEnv 5 "Some ''0xTOKEN''" erc20 "Some 5" None] sel
  show ?thesis by simp
qed

text \<open>
  Claim C9.  The \<open>disconnect\<close> listener clears the selected address and nothing else:
  afterwards the selected address is empty, the chain id is the one before, the provider
  is not connected, and putting the old address back gives the old state.
\<close>

theorem disconnect_clears_selected_address_only:
  "selectedAddress (setListeners E disconnect s) = []
   \<and> chainId (setListeners E disconnect s) = chainId s
   \<and> \<not> isConnected (setListeners E disconnect s)
   \<and> (setListeners E disconnect s)\<lparr>selectedAddress := selectedAddress s\<rparr> = s"
  by (simp add: isConnected_def)

text \<open>
  Claim C8.  With limit 0, \<open>getNftList\<close> returns the empty list at once, whatever the
  provider state and the environment: the state is returned as it was, so the registry
  is not initialised, no marketplace call is made and no metadata is fetched.
\<close>

theorem getNftList_zero_limit:
  "getNftList E userAddress 0 offset s = (Inr [], s)"
  by (simp add: getNftList_def)

text \<open>
  Claim C4.  While the provider is not connected (selected address or chain id empty),
  \<open>getNft\<close> throws "Provider is not connected" and leaves the state, hence the trace,
  unchanged: no registry, marketplace or ERC-721 call and no fetch precedes the throw.
\<close>

theorem getNft_not_connected:
  assumes "\<not> isConnected s"
  shows "getNft E collectionAddress tid s = (Inl ProviderIsNotConnected, s)"
  using assms by (simp add: getNft_def)

theorem getNft_not_connected_witness:
  "\<not> isConnected (connectedState\<lparr>chainId := ChainUnset\<rparr>)
   \<and> getNft twoTokensEnv ''0xBOOK'' ''1'' (connectedState\<lparr>chainId := ChainUnset\<rparr>)
       = (Inl ProviderIsNotConnected, connectedState\<lparr>chainId := ChainUnset\<rparr>)"
proof -
  have nc: "\<not> isConnected (connectedState\<lparr>chainId := ChainUnset\<rparr>)"
    by (simp add: isConnected_def)
  from getNft_not_connected[OF nc, of twoTokensEnv "''0xBOOK''" "''1''"] nc
  show ?thesis by simp
qed

section \<open>Listing and single-token retrieval\<close>

lemma trace_emit [simp]: "trace (emit e s) = trace s @ [e]"
  by (simp add: emit_def)

lemma trace_handleEthError [simp]: "trace (handleEthError e s) = trace s @ [EvHandleEthError e]"
  by (simp add: handleEthError_def)

lemma trace_initRegistry [simp]: "trace (initRegistry a s) = trace s"
  by (simp add: initRegistry_def)

lemma trace_initMarketPlace [simp]: "trace (initMarketPlace a s) = trace s"
  by (simp add: initMarketPlace_def)








lemma prelude_calls_refl:
  "\<exists>evs. trace s = trace s @ evs \<and> list_all isListingPreludeEvent evs"
  by simp
























section \<open>Calls that escape the accessors' guards\<close>

lemma connectedState_fields:
  "trace connectedState = []"
  by (simp_all add: connectedState_def initialState_def)

lemma failingProviderEnv_rejects:
  "provider_getBalance failingProviderEnv h a = Threw (EthProviderRpcError 4900 ''disconnected'')"
  "signer_sendTransaction failingProviderEnv h tx = Threw (EthProviderRpcError 4900 ''disconnected'')"
  by (simp_all add: failingProviderEnv_def)

lemma registryDownEnv_fields:
  "loadNetworks registryDownEnv h = Returned [\<lparr>chain_id = 1, factory_address = ''0xREGISTRY''\<rparr>]"
  "DEFAULT_CHAIN_ID registryDownEnv = 1"
  "getMarketplaceContract registryDownEnv h v a = Threw (EthProviderRpcError 4900 ''disconnected'')"
  "encodeFunctionData registryDownEnv fn bp sg = Returned fn"
  "signAndSendTx registryDownEnv h tx = Returned (Some ''0xRECEIPT'')"
  by (simp_all add: registryDownEnv_def quietEnv_def)

lemma unboundState_eq:
  "unboundState =
     connectedState\<lparr>networkList := [\<lparr>chain_id = 1, factory_address = ''0xREGISTRY''\<rparr>],
                    registryAddress := ''0xREGISTRY'',
                    trace := [EvLoadNetworks,
                              EvGetMarketplaceContract ViaCurrentProvider ''0xREGISTRY'',
                              EvHandleEthError (EthProviderRpcError 4900 ''disconnected'')]\<rparr>"
  by (simp add: unboundState_def onChainIdChange_def orch_initContractRegistry_def
      store_loadNetworks_def registryDownEnv_fields factoryAddressOf_def initRegistry_def
      orch_initMarketPlace_def getMarketPlaceAddress_def registryInstance_def isConnected_def
      emit_def handleEthError_def connectedState_def initialState_def Let_def)

lemma unboundState_fields:
  "contractInstance unboundState = None"
  "marketContractAddress unboundState = []"
  "chain_truthy (chainId unboundState)"
  "trace unboundState = [EvLoadNetworks,
                         EvGetMarketplaceContract ViaCurrentProvider ''0xREGISTRY'',
                         EvHandleEthError (EthProviderRpcError 4900 ''disconnected'')]"
  by (simp_all add: unboundState_eq contractInstance_def connectedState_def initialState_def)

lemma buyTokenWithERC20_unbound:
  "trace (snd (buyTokenWithERC20 registryDownEnv someBuyParams someSignature unboundState))
     = trace unboundState
       @ [EvSignAndSendTx \<lparr>tx_to = [], tx_data = ''buyTokenWithERC20'', tx_value = None\<rparr>]"
  by (simp add: buyTokenWithERC20_def sendEncoded_def registryDownEnv_fields
      unboundState_fields(2))

lemma buyTokenWithNFT_unbound:
  "trace (snd (buyTokenWithNFT registryDownEnv someBuyParams someSignature unboundState))
     = trace unboundState
       @ [EvSignAndSendTx \<lparr>tx_to = [], tx_data = ''buyTokenWithNFT'', tx_value = None\<rparr>]"
  by (simp add: buyTokenWithNFT_def sendEncoded_def registryDownEnv_fields
      unboundState_fields(2))

text \<open>
  Claim C3, evaluated on the code.  Take a connected wallet whose chain-id watcher ran
  while the registry read failed: the marketplace accessor was never initialised (empty
  contract address, no contract instance).  There \<open>buyTokenWithETH\<close> returns without
  any call, but \<open>buyTokenWithERC20\<close> and \<open>buyTokenWithNFT\<close> hand a transaction addressed
  to the empty string to the provider; the ERC-20 one is reached from \<open>mintWithErc20\<close>,
  which only tests the chain id.
\<close>

theorem purchase_before_marketplace_init:
  "contractInstance unboundState = None
   \<and> marketContractAddress unboundState = []
   \<and> buyTokenWithETH registryDownEnv someBuyParams someSignature (Some ''1'') unboundState
       = (None, unboundState)
   \<and> trace (snd (buyTokenWithERC20 registryDownEnv someBuyParams someSignature unboundState))
       = trace unboundState
         @ [EvSignAndSendTx \<lparr>tx_to = [], tx_data = ''buyTokenWithERC20'', tx_value = None\<rparr>]
   \<and> trace (snd (buyTokenWithNFT registryDownEnv someBuyParams someSignature unboundState))
       = trace unboundState
         @ [EvSignAndSendTx \<lparr>tx_to = [], tx_data = ''buyTokenWithNFT'', tx_value = None\<rparr>]
   \<and> trace (mintWithErc20 registryDownEnv someBuyParams someSignature unboundState)
       = trace unboundState
         @ [EvSignAndSendTx \<lparr>tx_to = [], tx_data = ''buyTokenWithERC20'', tx_value = None\<rparr>]"
  using buyTokenWithERC20_unbound buyTokenWithNFT_unbound
  by (simp add: buyTokenWithETH_def mintWithErc20_def unboundState_fields(1-3))

text \<open>
  Claim C7, evaluated on the code.  When the wallet provider rejects its calls,
  \<open>signAndSendTransaction\<close> hands the error to the handler and returns \<open>undefined\<close>, but
  \<open>getBalance\<close> has no \<open>catch\<close>: the rejection reaches the caller and the handler is not
  involved.
\<close>

theorem getBalance_rejection_propagates:
  "getBalance failingProviderEnv ''0xUSER'' connectedState
     = (Inl (Rejected (EthProviderRpcError 4900 ''disconnected'')),
        connectedState\<lparr>trace := [EvProviderGetBalance ''0xUSER'']\<rparr>)
   \<and> signAndSendTransaction failingProviderEnv
        \<lparr>tx_to = ''0xMARKET'', tx_data = ''0x'', tx_value = None\<rparr> connectedState
     = (None,
        connectedState\<lparr>trace :=
          [EvSendTransaction \<lparr>tx_to = ''0xMARKET'', tx_data = ''0x'', tx_value = None\<rparr>,
           EvHandleEthError (EthProviderRpcError 4900 ''disconnected'')]\<rparr>)"
  by (simp add: getBalance_def signAndSendTransaction_def failingProviderEnv_rejects
      emit_def handleEthError_def connectedState_fields)

end
